theory Spec2Isabelle
  imports Complex_Main "HOL-Library.Sublist"
begin

section \<open>Data model\<close>

text \<open>
  Both tools print one JSON object per run and end with an exit status. A run is
  modelled by what it writes to standard output (one entry per \<open>print\<close>) and the
  status it exits with. Python floats are modelled by their real value; the two float
  operations the extractor performs (\<open>+=\<close> and \<open>/\<close>) are taken from the runtime, so
  that rounding is not assumed away.
\<close>

text \<open>
  An exception of class \<open>Exception\<close> raised by a library call or by the interpreter. The
  scripts know it only through \<open>str(e)\<close>.
\<close>

datatype exn = Exn string

fun str_exn :: "exn \<Rightarrow> string" where
  "str_exn (Exn m) = m"

text \<open>
  The outcome of an \<open>import\<close> statement: the module loads, the import raises
  \<open>ImportError\<close> (the module is missing), or the import raises an exception of another
  class (the module is installed but broken). Each carries \<open>str(e)\<close>.
\<close>

datatype import_result = Loaded | ImportError string | OtherError string

record modules =
  cv2 :: import_result
  mediapipe :: import_result
  numpy :: import_result

text \<open>A decoded image: \<open>image.shape[:2]\<close> is \<open>(rows, cols)\<close>.\<close>

record image =
  rows :: nat
  cols :: nat
  pixels :: "nat list"

text \<open>One entry of \<open>results.pose_landmarks.landmark\<close>.\<close>

record landmark =
  lm_x :: real
  lm_y :: real
  lm_z :: real
  lm_visibility :: real

text \<open>The dictionary built for each landmark in \<open>extract_keypoints\<close>.\<close>

record keypoint =
  kp_id :: nat
  kp_name :: string
  kp_x :: real
  kp_y :: real
  kp_z :: real
  kp_visibility :: real

text \<open>
  The dictionary that is serialised to standard output. A key that a given dictionary
  literal of the source does not have is \<open>None\<close>; \<open>image_dimensions\<close> is
  \<open>(width, height)\<close>.
\<close>

record payload =
  success :: bool
  error :: "string option"
  traceback :: "string option"
  keypoints :: "keypoint list"
  keypoints_count :: "nat option"
  confidence :: real
  image_dimensions :: "(nat \<times> nat) option"
  pose_detected :: "bool option"

record run =
  stdout :: "payload list"
  exit_status :: nat

text \<open>
  Everything outside the script that \<open>extract_pose.py\<close> calls. Each call either
  returns or raises. \<open>construct\<close> is \<open>PoseExtractor()\<close>, which builds the model;
  \<open>process\<close> is \<open>self.pose.process\<close>, whose \<open>pose_landmarks\<close> is \<open>None\<close> or a
  landmark list; \<open>format_exc\<close> is \<open>traceback.format_exc()\<close> for the exception being
  handled.
\<close>

record world =
  construct :: "exn option"
  is_file :: "string \<Rightarrow> exn + bool"
  imread :: "string \<Rightarrow> exn + image option"
  cvtColor :: "image \<Rightarrow> exn + image"
  process :: "image \<Rightarrow> exn + landmark list option"
  format_exc :: "exn \<Rightarrow> string"
  float_add :: "real \<Rightarrow> real \<Rightarrow> real"
  float_div :: "real \<Rightarrow> real \<Rightarrow> real"

section \<open>The landmark-name table\<close>

definition landmark_names :: "string list" where
  "landmark_names =
    [''NOSE'', ''LEFT_EYE_INNER'', ''LEFT_EYE'', ''LEFT_EYE_OUTER'',
     ''RIGHT_EYE_INNER'', ''RIGHT_EYE'', ''RIGHT_EYE_OUTER'',
     ''LEFT_EAR'', ''RIGHT_EAR'', ''MOUTH_LEFT'', ''MOUTH_RIGHT'',
     ''LEFT_SHOULDER'', ''RIGHT_SHOULDER'', ''LEFT_ELBOW'', ''RIGHT_ELBOW'',
     ''LEFT_WRIST'', ''RIGHT_WRIST'', ''LEFT_PINKY'', ''RIGHT_PINKY'',
     ''LEFT_INDEX'', ''RIGHT_INDEX'', ''LEFT_THUMB'', ''RIGHT_THUMB'',
     ''LEFT_HIP'', ''RIGHT_HIP'', ''LEFT_KNEE'', ''RIGHT_KNEE'',
     ''LEFT_ANKLE'', ''RIGHT_ANKLE'', ''LEFT_HEEL'', ''RIGHT_HEEL'',
     ''LEFT_FOOT_INDEX'', ''RIGHT_FOOT_INDEX'']"

text \<open>
  Decimal rendering of an integer, as \<open>str\<close> and f-strings do. CPython refuses the
  conversion with \<open>ValueError\<close> when the number has more digits than
  \<open>sys.get_int_max_str_digits()\<close>, which is 4300 unless the interpreter is configured
  otherwise.
\<close>

definition digit_char :: "nat \<Rightarrow> char" where
  "digit_char d = ''0123456789'' ! d"

fun str_nat :: "nat \<Rightarrow> string" where
  "str_nat n = (if n < 10 then [digit_char n] else str_nat (n div 10) @ [digit_char (n mod 10)])"

declare str_nat.simps [simp del]

definition int_max_str_digits :: nat where
  "int_max_str_digits = 4300"

definition str_int :: "int \<Rightarrow> exn + string" where
  "str_int i =
     (if int_max_str_digits < length (str_nat (nat \<bar>i\<bar>))
      then Inl (Exn (''Exceeds the limit (4300 digits) for integer string conversion; '' @
                     ''use sys.set_int_max_str_digits() to increase the limit''))
      else Inr (if i < 0 then CHR ''-'' # str_nat (nat (- i)) else str_nat (nat i)))"

text \<open>
  Subscripting a Python list with an integer: positions \<open>0 .. len - 1\<close> are read
  directly, positions \<open>-len .. -1\<close> are read from the end, and any other integer
  raises \<open>IndexError\<close>, with its own message when the integer does not fit a machine
  index.
\<close>

definition py_index :: "'a list \<Rightarrow> int \<Rightarrow> exn + 'a" where
  "py_index xs i =
     (if i < - (2 ^ 63) \<or> 2 ^ 63 \<le> i
      then Inl (Exn (''cannot fit '' @ [CHR 0x27] @ ''int'' @ [CHR 0x27] @
                     '' into an index-sized integer''))
      else if 0 \<le> i \<and> i < int (length xs) then Inr (xs ! nat i)
      else if i < 0 \<and> - int (length xs) \<le> i then Inr (xs ! nat (int (length xs) + i))
      else Inl (Exn ''list index out of range''))"

text \<open>\<open>_get_landmark_name\<close> (the leading underscore is not an Isabelle identifier).\<close>

definition get_landmark_name :: "int \<Rightarrow> exn + string" where
  "get_landmark_name idx =
     (if idx < int (length landmark_names) then py_index landmark_names idx
      else (case str_int idx of
              Inl e \<Rightarrow> Inl e
            | Inr digits \<Rightarrow> Inr (''LANDMARK_'' @ digits)))"

section \<open>The pose extractor\<close>

text \<open>The dictionary literals of \<open>extract_pose.py\<close>, in source order.\<close>

definition missing_dependency_payload :: "string \<Rightarrow> payload" where
  "missing_dependency_payload msg =
     \<lparr>success = False,
      error = Some (''Missing Python dependency: '' @ msg @
        ''. Please install required packages with: pip install opencv-python mediapipe numpy''),
      traceback = None, keypoints = [], keypoints_count = None, confidence = 0,
      image_dimensions = None, pose_detected = None\<rparr>"

definition file_not_found_payload :: "string \<Rightarrow> payload" where
  "file_not_found_payload image_path =
     \<lparr>success = False, error = Some (''Image file not found: '' @ image_path),
      traceback = None, keypoints = [], keypoints_count = None, confidence = 0,
      image_dimensions = None, pose_detected = None\<rparr>"

definition could_not_read_payload :: "string \<Rightarrow> payload" where
  "could_not_read_payload image_path =
     \<lparr>success = False, error = Some (''Could not read image file: '' @ image_path),
      traceback = None, keypoints = [], keypoints_count = None, confidence = 0,
      image_dimensions = None, pose_detected = None\<rparr>"

definition no_pose_payload :: payload where
  "no_pose_payload =
     \<lparr>success = False, error = Some ''No pose detected in image'',
      traceback = None, keypoints = [], keypoints_count = None, confidence = 0,
      image_dimensions = None, pose_detected = None\<rparr>"

definition success_payload :: "keypoint list \<Rightarrow> real \<Rightarrow> nat \<Rightarrow> nat \<Rightarrow> payload" where
  "success_payload kps avg_confidence w h =
     \<lparr>success = True, error = None, traceback = None, keypoints = kps,
      keypoints_count = Some (length kps), confidence = avg_confidence,
      image_dimensions = Some (w, h), pose_detected = Some True\<rparr>"

definition caught_exception_payload :: "world \<Rightarrow> exn \<Rightarrow> payload" where
  "caught_exception_payload w e =
     \<lparr>success = False, error = Some (str_exn e),
      traceback = Some (format_exc w e), keypoints = [], keypoints_count = None,
      confidence = 0, image_dimensions = None, pose_detected = None\<rparr>"

definition usage_payload :: payload where
  "usage_payload =
     \<lparr>success = False,
      error = Some ''No image path provided. Usage: python extract_pose.py <image_path>'',
      traceback = None, keypoints = [], keypoints_count = None, confidence = 0,
      image_dimensions = None, pose_detected = None\<rparr>"

definition unexpected_error_payload :: "world \<Rightarrow> exn \<Rightarrow> payload" where
  "unexpected_error_payload w e =
     \<lparr>success = False, error = Some (''Unexpected error: '' @ str_exn e),
      traceback = Some (format_exc w e), keypoints = [], keypoints_count = None,
      confidence = 0, image_dimensions = None, pose_detected = None\<rparr>"

text \<open>
  The \<open>for idx, landmark in enumerate(...)\<close> loop: \<open>idx\<close> counts up from where it
  stands, the keypoint is appended, the visibility is added to the running total with the
  runtime's float addition. An exception of the name lookup leaves the loop.
\<close>

fun extract_loop ::
  "world \<Rightarrow> nat \<Rightarrow> landmark list \<Rightarrow> keypoint list \<Rightarrow> real \<Rightarrow> exn + keypoint list \<times> real" where
  "extract_loop w idx [] kps total_confidence = Inr (kps, total_confidence)"
| "extract_loop w idx (lm # lms) kps total_confidence =
     (case get_landmark_name (int idx) of
        Inl e \<Rightarrow> Inl e
      | Inr nm \<Rightarrow>
          extract_loop w (Suc idx) lms
            (kps @ [\<lparr>kp_id = idx, kp_name = nm, kp_x = lm_x lm, kp_y = lm_y lm,
                     kp_z = lm_z lm, kp_visibility = lm_visibility lm\<rparr>])
            (float_add w total_confidence (lm_visibility lm)))"

text \<open>The body of the \<open>try\<close> block of \<open>extract_keypoints\<close>: \<open>Inl\<close> is an exception raised in it.\<close>

definition extract_body :: "world \<Rightarrow> string \<Rightarrow> exn + payload" where
  "extract_body w image_path =
     (case is_file w image_path of
        Inl e \<Rightarrow> Inl e
      | Inr False \<Rightarrow> Inr (file_not_found_payload image_path)
      | Inr True \<Rightarrow>
          (case imread w image_path of
             Inl e \<Rightarrow> Inl e
           | Inr None \<Rightarrow> Inr (could_not_read_payload image_path)
           | Inr (Some img) \<Rightarrow>
               (case cvtColor w img of
                  Inl e \<Rightarrow> Inl e
                | Inr image_rgb \<Rightarrow>
                    (case process w image_rgb of
                       Inl e \<Rightarrow> Inl e
                     | Inr None \<Rightarrow> Inr no_pose_payload
                     | Inr (Some lms) \<Rightarrow>
                         (case extract_loop w 0 lms [] 0 of
                            Inl e \<Rightarrow> Inl e
                          | Inr (kps, total_confidence) \<Rightarrow>
                              Inr (success_payload kps
                                     (if kps \<noteq> []
                                      then float_div w total_confidence (real (length kps))
                                      else 0)
                                     (cols img) (rows img)))))))"

text \<open>\<open>extract_keypoints\<close>: the \<open>except Exception\<close> clause turns an exception into a payload.\<close>

definition extract_keypoints :: "world \<Rightarrow> string \<Rightarrow> payload" where
  "extract_keypoints w image_path =
     (case extract_body w image_path of
        Inl e \<Rightarrow> caught_exception_payload w e
      | Inr result \<Rightarrow> result)"

text \<open>
  The module-level import guard: the three imports run in order inside one \<open>try\<close>, so
  the guard sees the first import that does not load.
\<close>

definition first_import_failure :: "modules \<Rightarrow> import_result" where
  "first_import_failure imps =
     (case cv2 imps of
        Loaded \<Rightarrow>
          (case mediapipe imps of
             Loaded \<Rightarrow> numpy imps
           | ImportError m \<Rightarrow> ImportError m
           | OtherError m \<Rightarrow> OtherError m)
      | ImportError m \<Rightarrow> ImportError m
      | OtherError m \<Rightarrow> OtherError m)"

text \<open>
  \<open>main\<close>, with \<open>argv\<close> the whole of \<open>sys.argv\<close>. \<open>sys.exit(1)\<close> raises \<open>SystemExit\<close>,
  which \<open>except Exception\<close> does not catch, so the usage branch ends the run at once.
\<close>

definition main :: "world \<Rightarrow> string list \<Rightarrow> run" where
  "main w argv =
     (if length argv < 2 then \<lparr>stdout = [usage_payload], exit_status = 1\<rparr>
      else
        (case construct w of
           Some e \<Rightarrow> \<lparr>stdout = [unexpected_error_payload w e], exit_status = 1\<rparr>
         | None \<Rightarrow> \<lparr>stdout = [extract_keypoints w (argv ! 1)], exit_status = 0\<rparr>))"

text \<open>
  The whole script \<open>extract_pose.py\<close>: the import guard, then \<open>main\<close>. The guard's
  \<open>except ImportError\<close> prints the dependency payload and exits with status 1. An
  exception of another class is not caught: the interpreter writes the traceback to
  standard error, nothing to standard output, and exits with status 1.
\<close>

definition extract_pose :: "modules \<Rightarrow> world \<Rightarrow> string list \<Rightarrow> run" where
  "extract_pose imps w argv =
     (case first_import_failure imps of
        Loaded \<Rightarrow> main w argv
      | ImportError msg \<Rightarrow> \<lparr>stdout = [missing_dependency_payload msg], exit_status = 1\<rparr>
      | OtherError msg \<Rightarrow> \<lparr>stdout = [], exit_status = 1\<rparr>)"

section \<open>The dependency prober\<close>

text \<open>
  \<open>diagnose.py\<close>: the \<open>dependencies\<close> dictionary keeps its insertion order, so it is an
  association list; each entry is set by its own \<open>try\<close>, whose \<open>except ImportError\<close>
  leaves the entry false. An import that raises an exception of another class is not
  caught: the script ends there with status 1 and has printed nothing.
\<close>

record report =
  python_version :: string
  dependencies :: "(string \<times> bool) list"
  all_dependencies_available :: bool

record diagnosis =
  printed :: "report list"
  status :: nat

definition diagnose :: "string \<Rightarrow> modules \<Rightarrow> diagnosis" where
  "diagnose version imps =
     (case cv2 imps of
        OtherError m \<Rightarrow> \<lparr>printed = [], status = 1\<rparr>
      | _ \<Rightarrow>
          (case mediapipe imps of
             OtherError m \<Rightarrow> \<lparr>printed = [], status = 1\<rparr>
           | _ \<Rightarrow>
               (case numpy imps of
                  OtherError m \<Rightarrow> \<lparr>printed = [], status = 1\<rparr>
                | _ \<Rightarrow>
                    (let deps = [(''cv2'', cv2 imps = Loaded),
                                 (''mediapipe'', mediapipe imps = Loaded),
                                 (''numpy'', numpy imps = Loaded)]
                     in \<lparr>printed = [\<lparr>python_version = version, dependencies = deps,
                                      all_dependencies_available = list_all snd deps\<rparr>],
                         status = 0\<rparr>))))"

section \<open>Notions used in the statements\<close>

text \<open>
  What \<open>_get_landmark_name\<close> yields at a position of the \<open>enumerate\<close> loop when it
  returns.
\<close>

definition name_at :: "nat \<Rightarrow> string" where
  "name_at idx = (if idx < 33 then landmark_names ! idx else ''LANDMARK_'' @ str_nat idx)"

definition keypoint_at :: "nat \<Rightarrow> landmark \<Rightarrow> keypoint" where
  "keypoint_at idx lm =
     \<lparr>kp_id = idx, kp_name = name_at idx, kp_x = lm_x lm, kp_y = lm_y lm, kp_z = lm_z lm,
      kp_visibility = lm_visibility lm\<rparr>"

text \<open>The confidence the extractor computes from a landmark list, with the runtime's floats.\<close>

definition mean_confidence :: "world \<Rightarrow> landmark list \<Rightarrow> real" where
  "mean_confidence w lms =
     (if lms \<noteq> []
      then float_div w (foldl (float_add w) 0 (map lm_visibility lms)) (real (length lms))
      else 0)"

text \<open>The shape every failure dictionary of the source has.\<close>

definition failure_shaped :: "payload \<Rightarrow> bool" where
  "failure_shaped p \<longleftrightarrow>
     \<not> success p \<and> error p \<noteq> None \<and> keypoints p = [] \<and> confidence p = 0"

text \<open>The import either loads or raises \<open>ImportError\<close>, the one class both scripts catch.\<close>

fun import_settles :: "import_result \<Rightarrow> bool" where
  "import_settles Loaded = True"
| "import_settles (ImportError m) = True"
| "import_settles (OtherError m) = False"

text \<open>
  The standard model of binary64 arithmetic, for the two operations the extractor uses and
  on the range it uses them: an addition of non-negative numbers is off by at most the
  relative error \<open>1 / 2 ^ 53\<close>; a division by a positive count is off by at most that relative
  error plus half the smallest subnormal (the quotient may underflow).
\<close>

definition unit_roundoff :: real where
  "unit_roundoff = 1 / 2 ^ 53"

definition underflow_unit :: real where
  "underflow_unit = 1 / 2 ^ 1075"

definition rounds_add :: "(real \<Rightarrow> real \<Rightarrow> real) \<Rightarrow> bool" where
  "rounds_add fadd \<longleftrightarrow>
     (\<forall>a b. 0 \<le> a \<and> 0 \<le> b \<and> a + b \<le> 2 ^ 1000 \<longrightarrow>
        \<bar>fadd a b - (a + b)\<bar> \<le> unit_roundoff * (a + b))"

definition rounds_div :: "(real \<Rightarrow> real \<Rightarrow> real) \<Rightarrow> bool" where
  "rounds_div fdiv \<longleftrightarrow>
     (\<forall>a n. 0 \<le> a \<and> a \<le> 2 ^ 1000 \<and> 0 < n \<and> n \<le> (2::nat) ^ 53 \<longrightarrow>
        \<bar>fdiv a (real n) - a / real n\<bar> \<le> unit_roundoff * (a / real n) + underflow_unit)"

subsection \<open>Concrete environments\<close>

definition loaded_modules :: modules where
  "loaded_modules = \<lparr>cv2 = Loaded, mediapipe = Loaded, numpy = Loaded\<rparr>"

definition sample_image :: image where
  "sample_image = \<lparr>rows = 480, cols = 640, pixels = []\<rparr>"

definition sample_landmarks :: "landmark list" where
  "sample_landmarks =
     replicate 33 \<lparr>lm_x = 1 / 2, lm_y = 1 / 4, lm_z = - (1 / 8), lm_visibility = 3 / 4\<rparr>"

text \<open>A file name of 304 characters, longer than the 255 a file system accepts.\<close>

definition long_name :: string where
  "long_name = replicate 300 (CHR ''a'') @ ''.jpg''"

text \<open>
  A file system with the image \<open>person.jpg\<close> and the text file \<open>notes.txt\<close>, on which
  the regular-file check of a name over 255 characters raises \<open>OSError\<close>; a model that
  finds a pose; float operations that round every result away from the exact one.
\<close>

definition sample_world :: world where
  "sample_world =
     \<lparr>construct = None,
      is_file = (\<lambda>p. if 255 < length p
                     then Inl (Exn (''[Errno 36] File name too long: '' @
                                    [CHR 0x27] @ p @ [CHR 0x27]))
                     else Inr (p = ''person.jpg'' \<or> p = ''notes.txt'')),
      imread = (\<lambda>p. Inr (if p = ''person.jpg'' then Some sample_image else None)),
      cvtColor = (\<lambda>img. Inr img),
      process = (\<lambda>img. Inr (Some sample_landmarks)),
      format_exc = (\<lambda>e. ''Traceback (most recent call last): '' @ str_exn e),
      float_add = (\<lambda>a b. (a + b) * (1 + unit_roundoff)),
      float_div = (\<lambda>a b. a / b * (1 - unit_roundoff))\<rparr>"

text \<open>The same, with a model whose inference raises.\<close>

definition failing_world :: world where
  "failing_world = sample_world\<lparr>process := (\<lambda>img. Inl (Exn ''inference failed''))\<rparr>"

section \<open>Basic facts\<close>

lemma length_landmark_names: "length landmark_names = 33"
  by (simp add: landmark_names_def)

subsection \<open>The number of digits and the conversion limit\<close>

lemma length_str_nat_le: "0 < k \<Longrightarrow> n < 10 ^ k \<Longrightarrow> length (str_nat n) \<le> k"
proof (induction n arbitrary: k rule: str_nat.induct)
  case (1 n)
  show ?case
  proof (cases "n < 10")
    case True
    then show ?thesis using "1.prems"(1) by (subst str_nat.simps) simp
  next
    case False
    obtain j where k: "k = Suc j" using "1.prems"(1) by (cases k) auto
    have j: "0 < j"
    proof (rule ccontr)
      assume "\<not> 0 < j"
      with k "1.prems"(2) False show False by simp
    qed
    have "n < 10 ^ j * 10" using "1.prems"(2) k by (simp add: mult.commute)
    then have "n div 10 < 10 ^ j" by (simp add: div_less_iff_less_mult)
    from "1.IH" [OF False j this] show ?thesis
      using False k by (subst str_nat.simps) simp
  qed
qed

lemma length_str_nat_gt: "10 ^ k \<le> n \<Longrightarrow> k < length (str_nat n)"
proof (induction n arbitrary: k rule: str_nat.induct)
  case (1 n)
  show ?case
  proof (cases k)
    case 0
    then show ?thesis by (subst str_nat.simps) simp
  next
    case (Suc j)
    have "(10::nat) \<le> 10 ^ Suc j" by simp
    moreover have "10 ^ Suc j \<le> n" using "1.prems" Suc by simp
    ultimately have "10 \<le> n" by (rule order_trans)
    then have big: "\<not> n < 10" by simp
    have "10 ^ j * 10 \<le> n" using "1.prems" Suc by (simp add: mult.commute)
    then have "10 ^ j \<le> n div 10" by (simp add: less_eq_div_iff_mult_less_eq)
    from "1.IH" [OF big this] show ?thesis
      using big Suc by (subst str_nat.simps) simp
  qed
qed

lemma limit_positive: "0 < int_max_str_digits"
  by (simp add: int_max_str_digits_def)

lemma hundred_le_limit: "(10::nat) ^ 2 \<le> 10 ^ int_max_str_digits"
  by (rule power_increasing) (simp_all add: int_max_str_digits_def)

lemma small_below_limit: "n \<le> 100 \<Longrightarrow> n \<le> (10::nat) ^ int_max_str_digits"
  using hundred_le_limit by simp

lemma small_int_below_limit: "idx \<le> 99 \<Longrightarrow> idx < (10::int) ^ int_max_str_digits"
proof -
  assume "idx \<le> 99"
  moreover have "int (10 ^ 2) \<le> int (10 ^ int_max_str_digits)"
    using hundred_le_limit by (simp only: of_nat_le_iff)
  then have "(100::int) \<le> 10 ^ int_max_str_digits" by simp
  ultimately show ?thesis by linarith
qed

subsection \<open>The name lookup\<close>

lemma get_landmark_name_below:
  assumes "0 \<le> idx" and "idx < 10 ^ int_max_str_digits"
  shows "get_landmark_name idx =
     Inr (if idx < 33 then landmark_names ! nat idx else ''LANDMARK_'' @ str_nat (nat idx))"
proof (cases "idx < 33")
  case True
  with assms(1) show ?thesis
    by (simp add: get_landmark_name_def py_index_def length_landmark_names)
next
  case False
  have "int (nat idx) < int (10 ^ int_max_str_digits)" using assms by simp
  then have "nat idx < 10 ^ int_max_str_digits" by (simp only: of_nat_less_iff)
  from length_str_nat_le [OF limit_positive this]
  have "\<not> int_max_str_digits < length (str_nat (nat \<bar>idx\<bar>))" using assms(1) by simp
  with False assms(1) show ?thesis
    by (simp add: get_landmark_name_def str_int_def length_landmark_names)
qed

lemma get_landmark_name_above:
  assumes "10 ^ int_max_str_digits \<le> idx"
  shows "get_landmark_name idx =
     Inl (Exn (''Exceeds the limit (4300 digits) for integer string conversion; '' @
               ''use sys.set_int_max_str_digits() to increase the limit''))"
proof -
  have "int (10 ^ 2) \<le> int (10 ^ int_max_str_digits)"
    using hundred_le_limit by (simp only: of_nat_le_iff)
  then have "(100::int) \<le> 10 ^ int_max_str_digits" by simp
  with assms have big: "100 \<le> idx" by linarith
  have "int (10 ^ int_max_str_digits) \<le> int (nat idx)" using assms big by simp
  then have "10 ^ int_max_str_digits \<le> nat idx" by (simp only: of_nat_le_iff)
  from length_str_nat_gt [OF this]
  have "int_max_str_digits < length (str_nat (nat \<bar>idx\<bar>))" using big by simp
  with big show ?thesis
    by (simp add: get_landmark_name_def str_int_def length_landmark_names)
qed

lemma get_landmark_name_nat:
  "idx < 10 ^ int_max_str_digits \<Longrightarrow> get_landmark_name (int idx) = Inr (name_at idx)"
proof -
  assume "idx < 10 ^ int_max_str_digits"
  then have "int idx < int (10 ^ int_max_str_digits)" by (simp only: of_nat_less_iff)
  then have "int idx < 10 ^ int_max_str_digits" by simp
  from get_landmark_name_below [OF _ this] show ?thesis
    by (simp add: name_at_def)
qed

lemma get_landmark_name_Inr:
  "get_landmark_name (int idx) = Inr nm \<Longrightarrow> nm = name_at idx"
  by (auto simp: get_landmark_name_def py_index_def str_int_def name_at_def
      length_landmark_names split: if_splits)

subsection \<open>The extraction\<close>

text \<open>
  When the loop returns, it has appended one keypoint per landmark and folded the
  visibilities; and it returns for every list whose positions can be rendered.
\<close>

lemma extract_loop_Inr:
  "extract_loop w idx lms kps tot = Inr r \<Longrightarrow>
     r = (kps @ map2 keypoint_at [idx..<idx + length lms] lms,
          foldl (float_add w) tot (map lm_visibility lms))"
proof (induction lms arbitrary: idx kps tot)
  case Nil
  then show ?case by simp
next
  case (Cons lm lms)
  from Cons.prems obtain nm where nm: "get_landmark_name (int idx) = Inr nm"
    by (cases "get_landmark_name (int idx)") auto
  have upt: "[idx..<idx + length (lm # lms)] = idx # [Suc idx..<Suc idx + length lms]"
    by (subst upt_rec) simp
  have name: "nm = name_at idx" by (rule get_landmark_name_Inr [OF nm])
  from Cons.prems nm
  have "extract_loop w (Suc idx) lms
          (kps @ [\<lparr>kp_id = idx, kp_name = nm, kp_x = lm_x lm, kp_y = lm_y lm,
                   kp_z = lm_z lm, kp_visibility = lm_visibility lm\<rparr>])
          (float_add w tot (lm_visibility lm)) = Inr r"
    by simp
  from Cons.IH [OF this] upt show ?case
    by (simp add: name keypoint_at_def)
qed

lemma extract_loop_eq:
  "idx + length lms \<le> 10 ^ int_max_str_digits \<Longrightarrow>
   extract_loop w idx lms kps tot =
     Inr (kps @ map2 keypoint_at [idx..<idx + length lms] lms,
          foldl (float_add w) tot (map lm_visibility lms))"
proof (induction lms arbitrary: idx kps tot)
  case Nil
  show ?case by simp
next
  case (Cons lm lms)
  have "idx < 10 ^ int_max_str_digits" using Cons.prems by simp
  note nm = get_landmark_name_nat [OF this]
  have upt: "[idx..<idx + length (lm # lms)] = idx # [Suc idx..<Suc idx + length lms]"
    by (subst upt_rec) simp
  have "Suc idx + length lms \<le> 10 ^ int_max_str_digits" using Cons.prems by simp
  note IH = Cons.IH [OF this]
  from upt show ?case
    by (simp add: IH nm keypoint_at_def)
qed

lemma extract_body_detected:
  assumes "is_file w image_path = Inr True" and "imread w image_path = Inr (Some img)"
    and "cvtColor w img = Inr image_rgb" and "process w image_rgb = Inr (Some lms)"
    and "length lms \<le> 10 ^ int_max_str_digits"
  shows "extract_body w image_path =
     Inr (success_payload (map2 keypoint_at [0..<length lms] lms) (mean_confidence w lms)
            (cols img) (rows img))"
  using assms(1-4) extract_loop_eq [of 0 lms w "[]" 0] assms(5)
  by (simp add: extract_body_def mean_confidence_def)

lemma extract_body_success:
  assumes "extract_body w image_path = Inr p" and "success p"
  shows "\<exists>(img :: image) image_rgb lms. process w image_rgb = Inr (Some lms) \<and>
     p = success_payload (map2 keypoint_at [0..<length lms] lms) (mean_confidence w lms)
           (cols img) (rows img)"
proof -
  from assms obtain img :: image and image_rgb lms kps tot
    where model: "process w image_rgb = Inr (Some lms)"
      and loop: "extract_loop w 0 lms [] 0 = Inr (kps, tot)"
      and p: "p = success_payload kps
                    (if kps \<noteq> [] then float_div w tot (real (length kps)) else 0)
                    (cols img) (rows img)"
    by (auto simp: extract_body_def file_not_found_payload_def could_not_read_payload_def
        no_pose_payload_def split: sum.splits bool.splits option.splits)
  from extract_loop_Inr [OF loop]
  have kps: "kps = map2 keypoint_at [0..<length lms] lms"
    and tot: "tot = foldl (float_add w) 0 (map lm_visibility lms)"
    by simp_all
  have "length kps = length lms" by (simp add: kps)
  then have "kps \<noteq> [] \<longleftrightarrow> lms \<noteq> []" by (metis length_0_conv)
  then have "p = success_payload (map2 keypoint_at [0..<length lms] lms) (mean_confidence w lms)
           (cols img) (rows img)"
    unfolding p mean_confidence_def using kps tot by simp
  with model show ?thesis by blast
qed

lemma printed_success:
  assumes "p \<in> set (stdout (extract_pose imps w argv))" and "success p"
  shows "\<exists>image_path. extract_body w image_path = Inr p"
  using assms
  by (auto simp: extract_pose_def main_def extract_keypoints_def missing_dependency_payload_def
      usage_payload_def unexpected_error_payload_def caught_exception_payload_def
      split: import_result.splits option.splits if_splits sum.splits)

lemma extract_body_cases:
  "extract_body w image_path = Inr p \<Longrightarrow>
     p = file_not_found_payload image_path \<or> p = could_not_read_payload image_path \<or>
     p = no_pose_payload \<or> success p"
  by (auto simp: extract_body_def success_payload_def
      split: sum.splits bool.splits option.splits prod.splits)

lemma extract_keypoints_cases:
  "extract_keypoints w image_path = file_not_found_payload image_path \<or>
   extract_keypoints w image_path = could_not_read_payload image_path \<or>
   extract_keypoints w image_path = no_pose_payload \<or>
   (\<exists>e. extract_keypoints w image_path = caught_exception_payload w e) \<or>
   success (extract_keypoints w image_path)"
  using extract_body_cases [of w image_path]
  by (auto simp: extract_keypoints_def split: sum.splits)

lemma failure_shaped_literals:
  "failure_shaped (missing_dependency_payload msg)"
  "failure_shaped (file_not_found_payload path)"
  "failure_shaped (could_not_read_payload path)"
  "failure_shaped no_pose_payload"
  "failure_shaped (caught_exception_payload w e)"
  "failure_shaped usage_payload"
  "failure_shaped (unexpected_error_payload w e)"
  by (simp_all add: failure_shaped_def missing_dependency_payload_def file_not_found_payload_def
      could_not_read_payload_def no_pose_payload_def caught_exception_payload_def
      usage_payload_def unexpected_error_payload_def)

lemma extract_keypoints_shape:
  "success (extract_keypoints w path) \<or> failure_shaped (extract_keypoints w path)"
  using extract_keypoints_cases [of w path] by (auto simp: failure_shaped_literals)

lemma main_single:
  "\<exists>p. stdout (main w argv) = [p] \<and> (success p \<or> failure_shaped p)"
  using extract_keypoints_shape [of w "argv ! 1"]
  by (auto simp: main_def failure_shaped_literals split: option.splits)

lemma extract_pose_printed:
  "p \<in> set (stdout (extract_pose imps w argv)) \<Longrightarrow> success p \<or> failure_shaped p"
  using main_single [of w argv]
  by (auto simp: extract_pose_def failure_shaped_literals split: import_result.splits)

subsection \<open>The import guard\<close>

lemma first_import_failure_Loaded:
  "first_import_failure imps = Loaded \<longleftrightarrow>
     cv2 imps = Loaded \<and> mediapipe imps = Loaded \<and> numpy imps = Loaded"
  by (simp add: first_import_failure_def split: import_result.splits)

lemma main_loaded:
  assumes "cv2 imps = Loaded" and "mediapipe imps = Loaded" and "numpy imps = Loaded"
  shows "extract_pose imps w argv = main w argv"
  using assms by (simp add: extract_pose_def first_import_failure_def)

subsection \<open>The concrete environments\<close>

lemma loaded_modules_simps:
  "cv2 loaded_modules = Loaded" "mediapipe loaded_modules = Loaded"
  "numpy loaded_modules = Loaded"
  by (simp_all add: loaded_modules_def)

lemma length_long_name: "length long_name = 304"
  by (simp add: long_name_def)

lemma sample_world_simps:
  "construct sample_world = None"
  "is_file sample_world ''person.jpg'' = Inr True"
  "is_file sample_world ''notes.txt'' = Inr True"
  "is_file sample_world ''missing.jpg'' = Inr False"
  "imread sample_world ''person.jpg'' = Inr (Some sample_image)"
  "imread sample_world ''notes.txt'' = Inr None"
  "cvtColor sample_world sample_image = Inr sample_image"
  "process sample_world img = Inr (Some sample_landmarks)"
  "is_file sample_world long_name =
     Inl (Exn (''[Errno 36] File name too long: '' @ [CHR 0x27] @ long_name @ [CHR 0x27]))"
  "format_exc sample_world e = ''Traceback (most recent call last): '' @ str_exn e"
  by (simp_all add: sample_world_def length_long_name)

lemma failing_world_simps:
  "construct failing_world = None"
  "is_file failing_world ''person.jpg'' = Inr True"
  "imread failing_world ''person.jpg'' = Inr (Some sample_image)"
  "cvtColor failing_world sample_image = Inr sample_image"
  "process failing_world img = Inl (Exn ''inference failed'')"
  "format_exc failing_world e = ''Traceback (most recent call last): '' @ str_exn e"
  by (simp_all add: failing_world_def sample_world_def)

lemma length_sample_landmarks: "length sample_landmarks = 33"
  by (simp add: sample_landmarks_def)

lemma sample_landmarks_below_limit: "length sample_landmarks \<le> 10 ^ int_max_str_digits"
  by (rule small_below_limit) (simp add: length_sample_landmarks)

section \<open>Rounding error of the mean\<close>

lemma unit_roundoff_bounds: "0 < unit_roundoff" "unit_roundoff < 1"
  by (simp_all add: unit_roundoff_def)

lemma power_one_plus_le:
  fixes u :: real
  assumes "0 \<le> u" and "2 * real m * u \<le> 1"
  shows "(1 + u) ^ m \<le> 1 + 2 * real m * u"
  using assms
proof (induction m)
  case 0
  show ?case by simp
next
  case (Suc m)
  have mu: "2 * real m * u \<le> 1"
    using Suc.prems by (simp add: algebra_simps) 
  have "(1 + u) ^ Suc m = (1 + u) * (1 + u) ^ m" by simp
  also have "\<dots> \<le> (1 + u) * (1 + 2 * real m * u)"
    using Suc.IH [OF Suc.prems(1) mu] Suc.prems(1) by (intro mult_left_mono) auto
  also have "\<dots> = 1 + 2 * real m * u + u + (2 * real m * u) * u"
    by (simp add: algebra_simps)
  also have "\<dots> \<le> 1 + 2 * real m * u + u + 1 * u"
    using mu Suc.prems(1) by (intro add_left_mono mult_right_mono) auto
  also have "\<dots> = 1 + 2 * real (Suc m) * u"
    by (simp add: algebra_simps)
  finally show ?case .
qed

lemma power_one_minus_ge:
  fixes u :: real
  assumes "0 \<le> u" and "u \<le> 1"
  shows "1 - real m * u \<le> (1 - u) ^ m"
proof -
  have "1 + real m * (- u) \<le> (1 + (- u)) ^ m"
    using assms by (intro Bernoulli_inequality) simp
  then show ?thesis by simp
qed

lemma foldl_fadd_bounds:
  assumes add: "rounds_add fadd"
  shows "\<forall>v \<in> set vs. 0 \<le> v \<Longrightarrow> 0 \<le> acc \<Longrightarrow>
         (1 + unit_roundoff) ^ length vs * (acc + sum_list vs) \<le> 2 ^ 1000 \<Longrightarrow>
         0 \<le> foldl fadd acc vs \<and>
         (1 - unit_roundoff) ^ length vs * (acc + sum_list vs) \<le> foldl fadd acc vs \<and>
         foldl fadd acc vs \<le> (1 + unit_roundoff) ^ length vs * (acc + sum_list vs)"
proof (induction vs arbitrary: acc)
  case Nil
  then show ?case by simp
next
  case (Cons v vs)
  let ?u = unit_roundoff
  let ?n = "length vs"
  let ?s = "sum_list vs"
  have u: "0 < ?u" "?u < 1" by (rule unit_roundoff_bounds)+
  have v: "0 \<le> v" and vs: "\<forall>x \<in> set vs. 0 \<le> x" using Cons.prems(1) by simp_all
  have s: "0 \<le> ?s" using vs by (simp add: sum_list_nonneg)
  have acc: "0 \<le> acc" by (rule Cons.prems(2))
  have pow1: "1 \<le> (1 + ?u) ^ Suc ?n" using u by (intro one_le_power) simp
  have total: "0 \<le> acc + v + ?s" using acc v s by simp
  have "acc + v + ?s \<le> (1 + ?u) ^ Suc ?n * (acc + v + ?s)"
    using mult_right_mono [OF pow1 total] by simp
  also have "\<dots> \<le> 2 ^ 1000" using Cons.prems(3) by (simp add: add.assoc)
  finally have range: "acc + v \<le> 2 ^ 1000" using s by linarith
  have err: "\<bar>fadd acc v - (acc + v)\<bar> \<le> ?u * (acc + v)"
    using add acc v range unfolding rounds_add_def by blast
  let ?a = "fadd acc v"
  have a_lo: "(1 - ?u) * (acc + v) \<le> ?a" and a_hi: "?a \<le> (1 + ?u) * (acc + v)"
    using err by (simp_all add: abs_le_iff algebra_simps)
  have a_nonneg: "0 \<le> ?a"
  proof -
    have "0 \<le> (1 - ?u) * (acc + v)" using u acc v by (intro mult_nonneg_nonneg) simp_all
    with a_lo show ?thesis by linarith
  qed
  have hi_sum: "?a + ?s \<le> (1 + ?u) * (acc + v + ?s)"
  proof -
    have "?s \<le> (1 + ?u) * ?s" using u s by (simp add: algebra_simps)
    with a_hi show ?thesis by (simp add: algebra_simps)
  qed
  have lo_sum: "(1 - ?u) * (acc + v + ?s) \<le> ?a + ?s"
  proof -
    have "(1 - ?u) * ?s \<le> ?s" using u s by (simp add: algebra_simps)
    with a_lo show ?thesis by (simp add: algebra_simps)
  qed
  have pown: "0 \<le> (1 + ?u) ^ ?n" and pown': "0 \<le> (1 - ?u) ^ ?n" using u by simp_all
  have "(1 + ?u) ^ ?n * (?a + ?s) \<le> (1 + ?u) ^ ?n * ((1 + ?u) * (acc + v + ?s))"
    using hi_sum pown by (rule mult_left_mono)
  also have "\<dots> = (1 + ?u) ^ Suc ?n * (acc + v + ?s)" by simp
  finally have hi_step: "(1 + ?u) ^ ?n * (?a + ?s) \<le> (1 + ?u) ^ Suc ?n * (acc + v + ?s)" .
  have "(1 - ?u) ^ Suc ?n * (acc + v + ?s) = (1 - ?u) ^ ?n * ((1 - ?u) * (acc + v + ?s))" by simp
  also have "\<dots> \<le> (1 - ?u) ^ ?n * (?a + ?s)"
    using lo_sum pown' by (rule mult_left_mono)
  finally have lo_step: "(1 - ?u) ^ Suc ?n * (acc + v + ?s) \<le> (1 - ?u) ^ ?n * (?a + ?s)" .
  have "(1 + ?u) ^ ?n * (?a + ?s) \<le> 2 ^ 1000"
    using hi_step Cons.prems(3) by (simp add: add.assoc)
  from Cons.IH [OF vs a_nonneg this] hi_step lo_step
  show ?case by (simp add: add.assoc)
qed


lemma sum_list_unit_interval:
  fixes vs :: "real list"
  assumes "\<forall>v \<in> set vs. 0 \<le> v \<and> v \<le> 1"
  shows "0 \<le> sum_list vs \<and> sum_list vs \<le> real (length vs)"
  using assms by (induction vs) auto

lemma rounded_mean_error:
  assumes add: "rounds_add fadd" and div: "rounds_div fdiv"
    and ne: "vs \<noteq> []" and len: "length vs \<le> 2 ^ 20"
    and unit: "\<forall>v \<in> set vs. 0 \<le> v \<and> v \<le> 1"
  shows "\<bar>fdiv (foldl fadd 0 vs) (real (length vs)) - sum_list vs / real (length vs)\<bar>
           \<le> 1 / 10 ^ 6"
proof -
  let ?u = unit_roundoff
  let ?n = "length vs"
  let ?S = "sum_list vs"
  let ?t = "foldl fadd 0 vs"
  let ?m = "?S / real ?n"
  define q where "q = ?t / real ?n"
  define d where "d = fdiv ?t (real ?n)"
  define eta where "eta = underflow_unit"
  have u: "0 < ?u" "?u < 1" by (rule unit_roundoff_bounds)+
  have n_pos: "0 < ?n" using ne by simp
  have n_real: "real ?n \<le> 2 ^ 20" using len by (metis of_nat_le_iff of_nat_numeral of_nat_power)
  have S: "0 \<le> ?S" "?S \<le> real ?n" using sum_list_unit_interval [OF unit] by simp_all
  have m: "0 \<le> ?m" "?m \<le> 1" using S n_pos by simp_all
  have small: "2 * real (Suc ?n) * ?u \<le> 1"
    using n_real by (simp add: unit_roundoff_def)
  have small': "2 * real ?n * ?u \<le> 1"
    using n_real by (simp add: unit_roundoff_def)
  have pow_n: "(1 + ?u) ^ ?n \<le> 2"
    using power_one_plus_le [of ?u ?n] u small' by simp
  have pow_hi: "(1 + ?u) ^ Suc ?n \<le> 1 + 2 * real (Suc ?n) * ?u"
    using u small by (intro power_one_plus_le) simp_all
  have pow_lo: "1 - real (Suc ?n) * ?u \<le> (1 - ?u) ^ Suc ?n"
    using u by (intro power_one_minus_ge) simp_all
  have "(1 + ?u) ^ ?n * (0 + ?S) \<le> 2 * 2 ^ 20"
    using mult_mono [OF pow_n order_trans [OF S(2) n_real]] S(1) by simp
  also have "\<dots> \<le> (2 :: real) ^ 1000" by simp
  finally have range: "(1 + ?u) ^ ?n * (0 + ?S) \<le> 2 ^ 1000" .
  have nonneg: "\<forall>v \<in> set vs. 0 \<le> v" using unit by simp
  from foldl_fadd_bounds [OF add nonneg _ range]
  have t: "0 \<le> ?t" "(1 - ?u) ^ ?n * ?S \<le> ?t" "?t \<le> (1 + ?u) ^ ?n * ?S"
    by simp_all
  have t_range: "?t \<le> 2 ^ 1000" using t(3) range by simp
  have n_range: "?n \<le> 2 ^ 53"
    using len by (rule order_trans) simp
  have err: "\<bar>d - q\<bar> \<le> ?u * q + eta"
    using div t(1) t_range n_pos n_range unfolding rounds_div_def q_def d_def eta_def by blast
  have q_hi: "q \<le> (1 + ?u) ^ ?n * ?m" and q_lo: "(1 - ?u) ^ ?n * ?m \<le> q"
    using t(2,3) n_pos by (simp_all add: q_def divide_simps)
  have d_hi: "d \<le> (1 + ?u) * q + eta" and d_lo: "(1 - ?u) * q - eta \<le> d"
    using err by (simp_all add: abs_le_iff algebra_simps)
  have "(1 + ?u) * q \<le> (1 + ?u) * ((1 + ?u) ^ ?n * ?m)"
    using q_hi u by (intro mult_left_mono) simp_all
  also have "\<dots> = (1 + ?u) ^ Suc ?n * ?m" by simp
  also have "\<dots> \<le> (1 + 2 * real (Suc ?n) * ?u) * ?m"
    using pow_hi m(1) by (rule mult_right_mono)
  also have "\<dots> = ?m + 2 * real (Suc ?n) * ?u * ?m" by (simp add: algebra_simps)
  also have "\<dots> \<le> ?m + 2 * real (Suc ?n) * ?u * 1"
    using m(2) u by (intro add_left_mono mult_left_mono) simp_all
  finally have upper: "d - ?m \<le> 2 * real (Suc ?n) * ?u + eta"
    using d_hi by simp
  have "?m - real (Suc ?n) * ?u * 1 \<le> ?m - real (Suc ?n) * ?u * ?m"
    using m(2) u by (intro diff_left_mono mult_left_mono) simp_all
  also have "\<dots> = (1 - real (Suc ?n) * ?u) * ?m" by (simp add: algebra_simps)
  also have "\<dots> \<le> (1 - ?u) ^ Suc ?n * ?m"
    using pow_lo m(1) by (rule mult_right_mono)
  also have "\<dots> = (1 - ?u) * ((1 - ?u) ^ ?n * ?m)" by simp
  also have "\<dots> \<le> (1 - ?u) * q"
    using q_lo u by (intro mult_left_mono) simp_all
  finally have lower: "?m - d \<le> real (Suc ?n) * ?u + eta"
    using d_lo by simp
  have "real (Suc ?n) * ?u \<le> 2 * real (Suc ?n) * ?u" using u by simp
  with upper lower have "\<bar>d - ?m\<bar> \<le> 2 * real (Suc ?n) * ?u + eta"
    by (simp add: abs_le_iff)
  also have "\<dots> \<le> 2 * (2 ^ 20 + 1) * ?u + eta"
    using n_real u by simp
  also have "\<dots> \<le> 1 / 10 ^ 6"
    by (simp add: unit_roundoff_def eta_def underflow_unit_def)
  finally show ?thesis by (simp add: d_def)
qed

subsection \<open>The concrete environment satisfies the float model\<close>

lemma sample_rounds_add: "rounds_add (float_add sample_world)"
proof -
  have "\<bar>(a + b) * (1 + unit_roundoff) - (a + b)\<bar> \<le> unit_roundoff * (a + b)"
    if "0 \<le> a" "0 \<le> b" for a b :: real
  proof -
    have "(a + b) * (1 + unit_roundoff) - (a + b) = unit_roundoff * (a + b)"
      by (simp add: algebra_simps)
    moreover have "0 \<le> unit_roundoff * (a + b)"
      using that unit_roundoff_bounds(1) by (intro mult_nonneg_nonneg) simp_all
    ultimately show ?thesis by simp
  qed
  then show ?thesis by (simp add: rounds_add_def sample_world_def)
qed

lemma sample_rounds_div: "rounds_div (float_div sample_world)"
proof -
  have "\<bar>a / real n * (1 - unit_roundoff) - a / real n\<bar>
          \<le> unit_roundoff * (a / real n) + underflow_unit"
    if "0 \<le> a" "0 < n" for a :: real and n :: nat
  proof -
    define q where "q = a / real n"
    have "q * (1 - unit_roundoff) - q = - (unit_roundoff * q)"
      by (simp add: algebra_simps)
    moreover have "0 \<le> unit_roundoff * q"
      using that unit_roundoff_bounds(1) unfolding q_def by (intro mult_nonneg_nonneg) simp_all
    moreover have "0 \<le> underflow_unit" by (simp add: underflow_unit_def)
    ultimately have "\<bar>q * (1 - unit_roundoff) - q\<bar> \<le> unit_roundoff * q + underflow_unit"
      by simp
    then show ?thesis by (simp add: q_def)
  qed
  then show ?thesis by (simp add: rounds_div_def sample_world_def)
qed

lemma sample_model_bounded:
  "\<forall>img lms. process sample_world img = Inr (Some lms) \<longrightarrow>
     length lms \<le> 2 ^ 20 \<and> (\<forall>lm \<in> set lms. 0 \<le> lm_visibility lm \<and> lm_visibility lm \<le> 1)"
  by (auto simp: sample_world_simps sample_landmarks_def)

lemma sample_run:
  "extract_pose loaded_modules sample_world [''extract_pose.py'', ''person.jpg''] =
     \<lparr>stdout = [success_payload (map2 keypoint_at [0..<33] sample_landmarks)
                  (mean_confidence sample_world sample_landmarks) 640 480],
      exit_status = 0\<rparr>"
  using extract_body_detected [OF sample_world_simps(2,5,7,8) sample_landmarks_below_limit]
  by (simp add: main_loaded loaded_modules_simps main_def sample_world_simps
      extract_keypoints_def length_sample_landmarks sample_image_def)

section \<open>The claims\<close>

text \<open>
  C1. When the libraries load, the extractor is constructed, the path is a file that
  decodes to an image and the pose model returns its 33 landmarks for it, the extractor
  prints one success payload and exits with status 0; the payload has exactly 33
  keypoints, \<open>keypoints_count\<close> is 33, the keypoint at position \<open>i\<close> has id \<open>i\<close>, at
  most 32, and its name is entry \<open>i\<close> of the landmark-name table.
\<close>

theorem detected_pose_33_keypoints:
  assumes "cv2 imps = Loaded" and "mediapipe imps = Loaded" and "numpy imps = Loaded"
    and "construct w = None"
    and "is_file w image_path = Inr True" and "imread w image_path = Inr (Some img)"
    and "cvtColor w img = Inr image_rgb" and "process w image_rgb = Inr (Some lms)"
    and "length lms = 33"
  shows "\<exists>p. extract_pose imps w (prog # image_path # rest) = \<lparr>stdout = [p], exit_status = 0\<rparr> \<and>
     success p \<and> length (keypoints p) = 33 \<and> keypoints_count p = Some 33 \<and>
     (\<forall>i < 33. kp_id (keypoints p ! i) = i \<and> kp_name (keypoints p ! i) = landmark_names ! i) \<and>
     (\<forall>k \<in> set (keypoints p). kp_id k \<le> 32 \<and> kp_name k = landmark_names ! kp_id k)"
proof -
  let ?kps = "map2 keypoint_at [0..<length lms] lms"
  let ?p = "success_payload ?kps (mean_confidence w lms) (cols img) (rows img)"
  have below: "length lms \<le> 10 ^ int_max_str_digits"
    by (rule small_below_limit) (simp add: assms(9))
  have run: "extract_pose imps w (prog # image_path # rest) = \<lparr>stdout = [?p], exit_status = 0\<rparr>"
    using assms(1-4) extract_body_detected [OF assms(5-8) below]
    by (simp add: main_loaded main_def extract_keypoints_def)
  have nth: "kp_id (?kps ! i) = i \<and> kp_name (?kps ! i) = landmark_names ! i" if "i < 33" for i
    using that assms(9) by (simp add: keypoint_at_def name_at_def)
  have "kp_id k \<le> 32 \<and> kp_name k = landmark_names ! kp_id k" if "k \<in> set ?kps" for k
  proof -
    from that obtain i where "i < length ?kps" and "k = ?kps ! i"
      by (metis in_set_conv_nth)
    then show ?thesis using nth [of i] assms(9) by simp
  qed
  then show ?thesis
    using run nth assms(9) by (simp add: success_payload_def)
qed

theorem detected_pose_33_keypoints_witness:
  "\<exists>p. extract_pose loaded_modules sample_world [''extract_pose.py'', ''person.jpg''] =
         \<lparr>stdout = [p], exit_status = 0\<rparr> \<and>
     success p \<and> length (keypoints p) = 33 \<and> keypoints_count p = Some 33 \<and>
     (\<forall>i < 33. kp_id (keypoints p ! i) = i \<and> kp_name (keypoints p ! i) = landmark_names ! i) \<and>
     (\<forall>k \<in> set (keypoints p). kp_id k \<le> 32 \<and> kp_name k = landmark_names ! kp_id k)"
  by (rule detected_pose_33_keypoints [OF loaded_modules_simps sample_world_simps(1,2,5,7,8)
        length_sample_landmarks])

text \<open>
  C2. Let the runtime's float addition and division round as binary64 does, and let the
  pose model return at most \<open>2 ^ 20\<close> landmarks with visibilities in \<open>[0, 1]\<close>. Then in
  every success payload the extractor prints, the confidence is within \<open>1 / 10 ^ 6\<close> of
  the arithmetic mean of the keypoints' visibilities when there are keypoints, and is 0
  when there are none.
\<close>

theorem confidence_is_mean_visibility:
  assumes "rounds_add (float_add w)" and "rounds_div (float_div w)"
    and "\<forall>img lms. process w img = Inr (Some lms) \<longrightarrow>
           length lms \<le> 2 ^ 20 \<and> (\<forall>lm \<in> set lms. 0 \<le> lm_visibility lm \<and> lm_visibility lm \<le> 1)"
    and "p \<in> set (stdout (extract_pose imps w argv))" and "success p"
  shows "(keypoints p = [] \<longrightarrow> confidence p = 0) \<and>
     (keypoints p \<noteq> [] \<longrightarrow>
        \<bar>confidence p - sum_list (map kp_visibility (keypoints p)) / real (length (keypoints p))\<bar>
          \<le> 1 / 10 ^ 6)"
proof -
  from printed_success [OF assms(4,5)] obtain image_path
    where "extract_body w image_path = Inr p" by blast
  from extract_body_success [OF this assms(5)] obtain img :: image and image_rgb lms
    where model: "process w image_rgb = Inr (Some lms)"
      and p: "p = success_payload (map2 keypoint_at [0..<length lms] lms) (mean_confidence w lms)
                    (cols img) (rows img)"
    by blast
  let ?vs = "map lm_visibility lms"
  have kps: "keypoints p = map2 keypoint_at [0..<length lms] lms"
    and conf: "confidence p = mean_confidence w lms"
    by (simp_all add: p success_payload_def)
  have len: "length (keypoints p) = length lms" by (simp add: kps)
  have vis: "map kp_visibility (keypoints p) = ?vs"
    by (rule nth_equalityI) (simp_all add: kps keypoint_at_def)
  have empty: "keypoints p = [] \<longleftrightarrow> lms = []"
    using len by (metis length_0_conv)
  have bounded: "length ?vs \<le> 2 ^ 20" and unit: "\<forall>v \<in> set ?vs. 0 \<le> v \<and> v \<le> 1"
    using assms(3) model by auto
  have "\<bar>confidence p - sum_list ?vs / real (length lms)\<bar> \<le> 1 / 10 ^ 6" if "lms \<noteq> []"
  proof -
    from that have "?vs \<noteq> []" by simp
    from rounded_mean_error [OF assms(1,2) this bounded unit] that show ?thesis
      by (simp add: conf mean_confidence_def)
  qed
  then show ?thesis
    by (simp add: empty vis len) (simp add: conf mean_confidence_def)
qed

theorem confidence_is_mean_visibility_witness:
  "success (hd (stdout (extract_pose loaded_modules sample_world
      [''extract_pose.py'', ''person.jpg'']))) \<and>
   length (keypoints (hd (stdout (extract_pose loaded_modules sample_world
      [''extract_pose.py'', ''person.jpg''])))) = 33 \<and>
   \<bar>confidence (hd (stdout (extract_pose loaded_modules sample_world
        [''extract_pose.py'', ''person.jpg''])))
      - sum_list (map kp_visibility (keypoints (hd (stdout (extract_pose loaded_modules
          sample_world [''extract_pose.py'', ''person.jpg''])))))
        / real (length (keypoints (hd (stdout (extract_pose loaded_modules sample_world
          [''extract_pose.py'', ''person.jpg''])))))\<bar> \<le> 1 / 10 ^ 6"
proof -
  let ?r = "extract_pose loaded_modules sample_world [''extract_pose.py'', ''person.jpg'']"
  let ?p = "hd (stdout ?r)"
  have printed: "?p \<in> set (stdout ?r)" by (simp add: sample_run)
  have ok: "success ?p" by (simp add: sample_run success_payload_def)
  have n: "length (keypoints ?p) = 33"
    by (simp add: sample_run success_payload_def length_sample_landmarks)
  then have "keypoints ?p \<noteq> []" by auto
  with confidence_is_mean_visibility
    [OF sample_rounds_add sample_rounds_div sample_model_bounded printed ok] ok n
  show ?thesis by blast
qed

text \<open>
  The claim C3 as it is written makes every exception outcome exit with a nonzero status.
  Here the image is read and the model's inference raises: the exception is caught inside
  \<open>extract_keypoints\<close>, the failure payload with the exception's message and its
  traceback is printed, and the exit status is 0.
\<close>

theorem caught_exception_exits_zero_counterexample:
  "process failing_world sample_image = Inl (Exn ''inference failed'') \<and>
   extract_pose loaded_modules failing_world [''extract_pose.py'', ''person.jpg''] =
     \<lparr>stdout = [\<lparr>success = False, error = Some ''inference failed'',
                  traceback = Some ''Traceback (most recent call last): inference failed'',
                  keypoints = [], keypoints_count = None, confidence = 0,
                  image_dimensions = None, pose_detected = None\<rparr>],
      exit_status = 0\<rparr>"
  by (simp add: main_loaded loaded_modules_simps main_def extract_keypoints_def
      extract_body_def failing_world_simps caught_exception_payload_def)

text \<open>
  C3, amended. The exit status is 1 exactly when one of the imports does not load (it
  raises \<open>ImportError\<close> or an exception of another class), no path argument is given, or
  constructing the extractor raises (the exception that reaches the guard of \<open>main\<close>);
  otherwise it is 0. A run whose first failing import raises an exception other than
  \<open>ImportError\<close> prints nothing. Every other run prints exactly one payload. With
  status 1 it is the dependency, the usage or the \<open>Unexpected error\<close> failure payload.
  With status 0 it is what \<open>extract_keypoints\<close> returns: a success payload, or the failure
  payload of the file not found, of the unreadable image, of the undetected pose, or of an
  exception caught inside \<open>extract_keypoints\<close>.
\<close>

theorem exit_status_policy:
  "exit_status (extract_pose imps w argv) =
     (if first_import_failure imps \<noteq> Loaded \<or> length argv < 2 \<or> construct w \<noteq> None
      then 1 else 0) \<and>
   ((\<exists>m. first_import_failure imps = OtherError m) \<longrightarrow>
      stdout (extract_pose imps w argv) = []) \<and>
   ((\<forall>m. first_import_failure imps \<noteq> OtherError m) \<longrightarrow>
      (\<exists>p. stdout (extract_pose imps w argv) = [p] \<and>
         (exit_status (extract_pose imps w argv) \<noteq> 0 \<longrightarrow>
            failure_shaped p \<and>
            ((\<exists>msg. p = missing_dependency_payload msg) \<or> p = usage_payload \<or>
             (\<exists>e. p = unexpected_error_payload w e))) \<and>
         (exit_status (extract_pose imps w argv) = 0 \<longrightarrow>
            p = extract_keypoints w (argv ! 1) \<and>
            (success p \<or>
             failure_shaped p \<and>
             (p = file_not_found_payload (argv ! 1) \<or> p = could_not_read_payload (argv ! 1) \<or>
              p = no_pose_payload \<or> (\<exists>e. p = caught_exception_payload w e))))))"
proof -
  have shape: "success (extract_keypoints w (argv ! 1)) \<or>
      failure_shaped (extract_keypoints w (argv ! 1)) \<and>
      (extract_keypoints w (argv ! 1) = file_not_found_payload (argv ! 1) \<or>
       extract_keypoints w (argv ! 1) = could_not_read_payload (argv ! 1) \<or>
       extract_keypoints w (argv ! 1) = no_pose_payload \<or>
       (\<exists>e. extract_keypoints w (argv ! 1) = caught_exception_payload w e))"
    using extract_keypoints_cases [of w "argv ! 1"] extract_keypoints_shape [of w "argv ! 1"]
    by blast
  show ?thesis
  proof (cases "first_import_failure imps")
    case (ImportError msg)
    then show ?thesis
      by (auto simp: extract_pose_def failure_shaped_literals)
  next
    case (OtherError msg)
    then show ?thesis
      by (simp add: extract_pose_def)
  next
    case Loaded
    note deps = this
    show ?thesis
    proof (cases "length argv < 2")
      case True
      with deps show ?thesis
        by (auto simp: extract_pose_def main_def failure_shaped_literals)
    next
      case False
      note args = this
      show ?thesis
      proof (cases "construct w")
        case (Some e)
        with deps args show ?thesis
          by (auto simp: extract_pose_def main_def failure_shaped_literals)
      next
        case None
        with deps args shape show ?thesis
          by (simp add: extract_pose_def main_def)
      qed
    qed
  qed
qed

theorem exit_status_policy_witness:
  "construct (sample_world\<lparr>construct := Some (Exn ''model file missing'')\<rparr>) \<noteq> None \<and>
   exit_status (extract_pose loaded_modules
      (sample_world\<lparr>construct := Some (Exn ''model file missing'')\<rparr>)
      [''extract_pose.py'', ''person.jpg'']) = 1 \<and>
   first_import_failure loaded_modules = Loaded \<and>
   construct sample_world = None \<and>
   exit_status (extract_pose loaded_modules sample_world
      [''extract_pose.py'', ''missing.jpg'']) = 0 \<and>
   first_import_failure
     \<lparr>cv2 = Loaded, mediapipe = OtherError ''Descriptors cannot be created directly.'',
      numpy = Loaded\<rparr> = OtherError ''Descriptors cannot be created directly.'' \<and>
   stdout (extract_pose
     \<lparr>cv2 = Loaded, mediapipe = OtherError ''Descriptors cannot be created directly.'',
      numpy = Loaded\<rparr> sample_world [''extract_pose.py'', ''person.jpg'']) = []"
  using exit_status_policy [of loaded_modules
      "sample_world\<lparr>construct := Some (Exn ''model file missing'')\<rparr>"
      "[''extract_pose.py'', ''person.jpg'']"]
    exit_status_policy [of loaded_modules sample_world "[''extract_pose.py'', ''missing.jpg'']"]
    exit_status_policy [of
      "\<lparr>cv2 = Loaded, mediapipe = OtherError ''Descriptors cannot be created directly.'',
        numpy = Loaded\<rparr>" sample_world "[''extract_pose.py'', ''person.jpg'']"]
  by (simp add: first_import_failure_Loaded loaded_modules_simps sample_world_simps
      first_import_failure_def)

text \<open>
  The claim C4 as it is written covers every path that is not an existing regular file.
  The name \<open>long_name\<close> has 304 characters, so no such file exists; the regular-file
  check raises \<open>OSError\<close> on it, the exception is caught inside \<open>extract_keypoints\<close>, and
  the error that is printed is the exception's message, in which \<open>not found\<close> does not
  occur. The exit status is 0.
\<close>

theorem long_name_not_found_counterexample:
  "is_file sample_world long_name =
     Inl (Exn (''[Errno 36] File name too long: '' @ [CHR 0x27] @ long_name @ [CHR 0x27])) \<and>
   extract_pose loaded_modules sample_world [''extract_pose.py'', long_name] =
     \<lparr>stdout = [caught_exception_payload sample_world
        (Exn (''[Errno 36] File name too long: '' @ [CHR 0x27] @ long_name @ [CHR 0x27]))],
      exit_status = 0\<rparr> \<and>
   error (caught_exception_payload sample_world
        (Exn (''[Errno 36] File name too long: '' @ [CHR 0x27] @ long_name @ [CHR 0x27]))) =
     Some (''[Errno 36] File name too long: '' @ [CHR 0x27] @ long_name @ [CHR 0x27]) \<and>
   \<not> sublist ''not found''
       (''[Errno 36] File name too long: '' @ [CHR 0x27] @ long_name @ [CHR 0x27])"
proof -
  let ?msg = "''[Errno 36] File name too long: '' @ [CHR 0x27] @ long_name @ [CHR 0x27]"
  have "CHR ''f'' \<in> set ''not found''" by simp
  moreover have "CHR ''f'' \<notin> set ?msg" by (simp add: long_name_def)
  ultimately have "\<not> set ''not found'' \<subseteq> set ?msg" by blast
  then have absent: "\<not> sublist ''not found'' ?msg"
    using set_mono_sublist by blast
  have "extract_pose loaded_modules sample_world [''extract_pose.py'', long_name] =
     \<lparr>stdout = [caught_exception_payload sample_world (Exn ?msg)], exit_status = 0\<rparr>"
    by (simp add: main_loaded loaded_modules_simps main_def extract_keypoints_def
        extract_body_def sample_world_simps)
  with absent show ?thesis
    by (simp add: sample_world_simps) (simp add: caught_exception_payload_def)
qed

text \<open>
  C4, amended. When the libraries load, the extractor is constructed and the path
  argument is not an existing regular file, the extractor prints one failure payload and
  exits with status 0. When the regular-file check returns false, the error is
  \<open>Image file not found:\<close> followed by the path, so it contains \<open>not found\<close>. When the
  check itself raises, as it does for a name the file system refuses, the payload is the
  one of the caught exception: its error is the exception's message.
\<close>

theorem not_a_file_exit_zero:
  assumes "cv2 imps = Loaded" and "mediapipe imps = Loaded" and "numpy imps = Loaded"
    and "construct w = None" and "is_file w image_path \<noteq> Inr True"
  shows "\<exists>p. extract_pose imps w (prog # image_path # rest) =
              \<lparr>stdout = [p], exit_status = 0\<rparr> \<and>
     failure_shaped p \<and>
     (is_file w image_path = Inr False \<longrightarrow>
        p = file_not_found_payload image_path \<and>
        error p = Some (''Image file not found: '' @ image_path) \<and>
        sublist ''not found'' (''Image file not found: '' @ image_path)) \<and>
     (\<forall>e. is_file w image_path = Inl e \<longrightarrow>
        p = caught_exception_payload w e \<and> error p = Some (str_exn e))"
proof -
  have "sublist ''not found'' (''Image file '' @ ''not found'' @ '': '' @ image_path)"
    unfolding sublist_def by blast
  then have found: "sublist ''not found'' (''Image file not found: '' @ image_path)"
    by simp
  have run: "extract_pose imps w (prog # image_path # rest) =
      \<lparr>stdout = [extract_keypoints w image_path], exit_status = 0\<rparr>"
    using assms(1-4) by (simp add: main_loaded main_def)
  show ?thesis
  proof (cases "is_file w image_path")
    case (Inl e)
    then have "extract_keypoints w image_path = caught_exception_payload w e"
      by (simp add: extract_keypoints_def extract_body_def)
    with run Inl show ?thesis
      by (simp add: failure_shaped_literals) (simp add: caught_exception_payload_def)
  next
    case (Inr b)
    with assms(5) have no: "is_file w image_path = Inr False" by simp
    then have "extract_keypoints w image_path = file_not_found_payload image_path"
      by (simp add: extract_keypoints_def extract_body_def)
    with run no found show ?thesis
      by (simp add: failure_shaped_literals) (simp add: file_not_found_payload_def)
  qed
qed

theorem not_a_file_exit_zero_witness:
  "is_file sample_world ''missing.jpg'' = Inr False \<and>
   extract_pose loaded_modules sample_world [''extract_pose.py'', ''missing.jpg''] =
     \<lparr>stdout = [file_not_found_payload ''missing.jpg''], exit_status = 0\<rparr> \<and>
   error (file_not_found_payload ''missing.jpg'') = Some ''Image file not found: missing.jpg'' \<and>
   extract_pose loaded_modules sample_world [''extract_pose.py'', long_name] =
     \<lparr>stdout = [caught_exception_payload sample_world
        (Exn (''[Errno 36] File name too long: '' @ [CHR 0x27] @ long_name @ [CHR 0x27]))],
      exit_status = 0\<rparr>"
  using not_a_file_exit_zero [of loaded_modules sample_world "''missing.jpg''"
      "''extract_pose.py''" "[]"]
    not_a_file_exit_zero [of loaded_modules sample_world long_name "''extract_pose.py''" "[]"]
  by (auto simp: loaded_modules_simps sample_world_simps)

text \<open>
  The claim C5 as it is written asks for the lower-case text \<open>could not read\<close> in the
  error message. For the existing text file \<open>notes.txt\<close>, which does not decode, the run
  exits with status 0 and the message is \<open>Could not read image file: notes.txt\<close>, with a
  capital \<open>C\<close>: the lower-case text does not occur in it.
\<close>

theorem could_not_read_lowercase_counterexample:
  "is_file sample_world ''notes.txt'' = Inr True \<and>
   imread sample_world ''notes.txt'' = Inr None \<and>
   extract_pose loaded_modules sample_world [''extract_pose.py'', ''notes.txt''] =
     \<lparr>stdout = [could_not_read_payload ''notes.txt''], exit_status = 0\<rparr> \<and>
   error (could_not_read_payload ''notes.txt'') = Some ''Could not read image file: notes.txt'' \<and>
   \<not> sublist ''could not read'' ''Could not read image file: notes.txt''"
proof -
  have "\<not> sublist ''could not read'' ''Could not read image file: notes.txt''"
    by (simp add: sublist_code)
  moreover have "extract_pose loaded_modules sample_world [''extract_pose.py'', ''notes.txt''] =
     \<lparr>stdout = [could_not_read_payload ''notes.txt''], exit_status = 0\<rparr>"
    by (simp add: main_loaded loaded_modules_simps main_def extract_keypoints_def
        extract_body_def sample_world_simps)
  ultimately show ?thesis
    by (simp add: sample_world_simps) (simp add: could_not_read_payload_def)
qed

text \<open>
  C5, amended. When the libraries load, the extractor is constructed, and the path is an
  existing regular file that does not decode to an image, the extractor prints one failure
  payload whose error is \<open>Could not read image file:\<close> followed by the path, so it
  contains \<open>Could not read\<close> with a capital \<open>C\<close>, and exits with status 0.
\<close>

theorem unreadable_image_exit_zero:
  assumes "cv2 imps = Loaded" and "mediapipe imps = Loaded" and "numpy imps = Loaded"
    and "construct w = None"
    and "is_file w image_path = Inr True" and "imread w image_path = Inr None"
  shows "extract_pose imps w (prog # image_path # rest) =
       \<lparr>stdout = [could_not_read_payload image_path], exit_status = 0\<rparr> \<and>
     failure_shaped (could_not_read_payload image_path) \<and>
     error (could_not_read_payload image_path) =
       Some (''Could not read image file: '' @ image_path) \<and>
     sublist ''Could not read'' (''Could not read image file: '' @ image_path)"
proof -
  have "sublist ''Could not read'' ([] @ ''Could not read'' @ '' image file: '' @ image_path)"
    unfolding sublist_def by blast
  then have "sublist ''Could not read'' (''Could not read image file: '' @ image_path)"
    by simp
  moreover have "extract_pose imps w (prog # image_path # rest) =
       \<lparr>stdout = [could_not_read_payload image_path], exit_status = 0\<rparr>"
    using assms by (simp add: main_loaded main_def extract_keypoints_def extract_body_def)
  ultimately show ?thesis
    by (simp add: failure_shaped_literals) (simp add: could_not_read_payload_def)
qed

theorem unreadable_image_exit_zero_witness:
  "extract_pose loaded_modules sample_world [''extract_pose.py'', ''notes.txt''] =
     \<lparr>stdout = [could_not_read_payload ''notes.txt''], exit_status = 0\<rparr> \<and>
   sublist ''Could not read'' (''Could not read image file: '' @ ''notes.txt'')"
  using unreadable_image_exit_zero [OF loaded_modules_simps sample_world_simps(1,3,6),
      of "''extract_pose.py''" "[]"]
  by simp

text \<open>
  C6. When the libraries load and no path argument is given, the extractor prints one
  failure payload whose error is the usage hint, and exits with status 1.
\<close>

theorem no_argument_usage:
  assumes "cv2 imps = Loaded" and "mediapipe imps = Loaded" and "numpy imps = Loaded"
    and "length argv < 2"
  shows "extract_pose imps w argv = \<lparr>stdout = [usage_payload], exit_status = 1\<rparr> \<and>
     failure_shaped usage_payload \<and>
     error usage_payload =
       Some ''No image path provided. Usage: python extract_pose.py <image_path>'' \<and>
     sublist ''Usage: python extract_pose.py <image_path>'' (the (error usage_payload))"
proof -
  have "sublist ''Usage: python extract_pose.py <image_path>''
          (''No image path provided. '' @ ''Usage: python extract_pose.py <image_path>'' @ [])"
    unfolding sublist_def by blast
  then have "sublist ''Usage: python extract_pose.py <image_path>'' (the (error usage_payload))"
    by (simp add: usage_payload_def)
  moreover have "extract_pose imps w argv = \<lparr>stdout = [usage_payload], exit_status = 1\<rparr>"
    using assms by (simp add: main_loaded main_def)
  ultimately show ?thesis
    by (simp add: failure_shaped_literals) (simp add: usage_payload_def)
qed

theorem no_argument_usage_witness:
  "length [''extract_pose.py''] < 2 \<and>
   extract_pose loaded_modules sample_world [''extract_pose.py''] =
     \<lparr>stdout = [usage_payload], exit_status = 1\<rparr> \<and>
   error usage_payload =
     Some ''No image path provided. Usage: python extract_pose.py <image_path>''"
  using no_argument_usage [of loaded_modules "[''extract_pose.py'']" sample_world]
  by (simp add: loaded_modules_simps)

text \<open>
  The claim C7 as it is written promises the failure payload whenever a library fails to
  load. Here \<open>mediapipe\<close> is installed but its import raises \<open>TypeError\<close>: the guard's
  \<open>except ImportError\<close> does not catch it, nothing is printed to standard output, and
  the exit status is 1.
\<close>

theorem broken_import_prints_nothing_counterexample:
  "mediapipe \<lparr>cv2 = Loaded, mediapipe = OtherError ''Descriptors cannot be created directly.'',
      numpy = Loaded\<rparr> \<noteq> Loaded \<and>
   extract_pose
     \<lparr>cv2 = Loaded, mediapipe = OtherError ''Descriptors cannot be created directly.'',
      numpy = Loaded\<rparr> sample_world [''extract_pose.py'', ''person.jpg''] =
     \<lparr>stdout = [], exit_status = 1\<rparr>"
  by (simp add: extract_pose_def first_import_failure_def)

text \<open>
  C7, amended. When one of the three imports does not load, the run ends with status 1
  whatever the arguments, the file system and the model are: none of them is consulted.
  When the first import that does not load raises \<open>ImportError\<close>, the run prints one
  failure payload that carries that error's message and the install hint. When it raises
  an exception of another class, the run prints nothing.
\<close>

theorem import_failure_exit:
  assumes "cv2 imps \<noteq> Loaded \<or> mediapipe imps \<noteq> Loaded \<or> numpy imps \<noteq> Loaded"
  shows "first_import_failure imps \<noteq> Loaded \<and>
     (\<forall>w argv. exit_status (extract_pose imps w argv) = 1) \<and>
     (\<forall>w argv w' argv'. extract_pose imps w argv = extract_pose imps w' argv') \<and>
     (\<forall>msg. first_import_failure imps = ImportError msg \<longrightarrow>
        (\<forall>w argv. extract_pose imps w argv =
           \<lparr>stdout = [missing_dependency_payload msg], exit_status = 1\<rparr>) \<and>
        failure_shaped (missing_dependency_payload msg) \<and>
        error (missing_dependency_payload msg) =
          Some (''Missing Python dependency: '' @ msg @
            ''. Please install required packages with: pip install opencv-python mediapipe numpy'')) \<and>
     (\<forall>msg. first_import_failure imps = OtherError msg \<longrightarrow>
        (\<forall>w argv. extract_pose imps w argv = \<lparr>stdout = [], exit_status = 1\<rparr>))"
proof -
  from assms have failed: "first_import_failure imps \<noteq> Loaded"
    by (simp add: first_import_failure_Loaded)
  show ?thesis
  proof (cases "first_import_failure imps")
    case Loaded
    with failed show ?thesis by simp
  next
    case (ImportError m)
    then show ?thesis
      by (simp add: extract_pose_def failure_shaped_literals)
         (simp add: missing_dependency_payload_def)
  next
    case (OtherError m)
    then show ?thesis
      by (simp add: extract_pose_def)
  qed
qed

theorem import_failure_exit_witness:
  "(\<forall>w argv. extract_pose \<lparr>cv2 = Loaded, mediapipe = ImportError ''No module named mediapipe'',
        numpy = Loaded\<rparr> w argv =
     \<lparr>stdout = [missing_dependency_payload ''No module named mediapipe''], exit_status = 1\<rparr>) \<and>
   (\<forall>w argv. extract_pose \<lparr>cv2 = OtherError ''partially initialized module cv2 has no attribute _registerMatType'',
        mediapipe = Loaded, numpy = Loaded\<rparr> w argv = \<lparr>stdout = [], exit_status = 1\<rparr>)"
  using import_failure_exit
    [of "\<lparr>cv2 = Loaded, mediapipe = ImportError ''No module named mediapipe'', numpy = Loaded\<rparr>"]
    import_failure_exit
    [of "\<lparr>cv2 = OtherError ''partially initialized module cv2 has no attribute _registerMatType'', mediapipe = Loaded,
          numpy = Loaded\<rparr>"]
  by (simp add: first_import_failure_def)

text \<open>
  The claim C8 as it is written has the prober exit with status 0 in every environment.
  Here \<open>mediapipe\<close> is installed but its import raises \<open>TypeError\<close>, which the prober's
  \<open>except ImportError\<close> does not catch: no report is printed and the exit status is 1.
\<close>

theorem diagnose_broken_import_counterexample:
  "diagnose ''3.11.4''
     \<lparr>cv2 = Loaded, mediapipe = OtherError ''Descriptors cannot be created directly.'',
      numpy = Loaded\<rparr> = \<lparr>printed = [], status = 1\<rparr>"
  by (simp add: diagnose_def)

text \<open>
  C8, amended. In every environment where each of the three imports either loads or
  raises \<open>ImportError\<close>, the dependency prober exits with status 0 and prints exactly one
  report; the report has the version string, the three dependency entries \<open>cv2\<close>,
  \<open>mediapipe\<close>, \<open>numpy\<close> in this order, each true exactly when that library loads, and
  \<open>all_dependencies_available\<close> is true exactly when all three are. Where an import
  raises an exception of another class, the prober prints nothing and exits with status 1.
\<close>

theorem diagnose_report:
  "(import_settles (cv2 imps) \<and> import_settles (mediapipe imps) \<and> import_settles (numpy imps) \<longrightarrow>
     (\<exists>r. printed (diagnose version imps) = [r] \<and> status (diagnose version imps) = 0 \<and>
        python_version r = version \<and>
        map fst (dependencies r) = [''cv2'', ''mediapipe'', ''numpy''] \<and>
        map_of (dependencies r) ''cv2'' = Some (cv2 imps = Loaded) \<and>
        map_of (dependencies r) ''mediapipe'' = Some (mediapipe imps = Loaded) \<and>
        map_of (dependencies r) ''numpy'' = Some (numpy imps = Loaded) \<and>
        all_dependencies_available r =
          (cv2 imps = Loaded \<and> mediapipe imps = Loaded \<and> numpy imps = Loaded))) \<and>
   (\<not> (import_settles (cv2 imps) \<and> import_settles (mediapipe imps) \<and>
        import_settles (numpy imps)) \<longrightarrow>
     diagnose version imps = \<lparr>printed = [], status = 1\<rparr>)"
  by (cases "cv2 imps"; cases "mediapipe imps"; cases "numpy imps") (simp_all add: diagnose_def)

theorem diagnose_report_witness:
  "import_settles Loaded \<and> import_settles (ImportError ''No module named mediapipe'') \<and>
   (\<exists>r. printed (diagnose ''3.11.4'' \<lparr>cv2 = Loaded,
            mediapipe = ImportError ''No module named mediapipe'', numpy = Loaded\<rparr>) = [r] \<and>
     status (diagnose ''3.11.4'' \<lparr>cv2 = Loaded,
            mediapipe = ImportError ''No module named mediapipe'', numpy = Loaded\<rparr>) = 0 \<and>
     dependencies r = [(''cv2'', True), (''mediapipe'', False), (''numpy'', True)] \<and>
     all_dependencies_available r = False)"
  using diagnose_report [of
      "\<lparr>cv2 = Loaded, mediapipe = ImportError ''No module named mediapipe'', numpy = Loaded\<rparr>"
      "''3.11.4''"]
  by (auto simp: diagnose_def)

text \<open>
  C9. Every payload the extractor prints with \<open>success\<close> false has an empty keypoint list
  and confidence 0; this covers the missing argument, the missing dependency, the file
  that is not found, the unreadable image, the undetected pose and both exception guards.
\<close>

theorem failure_payload_shape:
  assumes "p \<in> set (stdout (extract_pose imps w argv))" and "\<not> success p"
  shows "keypoints p = [] \<and> confidence p = 0"
  using assms extract_pose_printed [of p imps w argv] by (auto simp: failure_shaped_def)

theorem failure_payload_shape_witness:
  "no_pose_payload \<in> set (stdout (extract_pose loaded_modules
       (sample_world\<lparr>process := (\<lambda>img. Inr None)\<rparr>) [''extract_pose.py'', ''person.jpg''])) \<and>
   \<not> success no_pose_payload \<and> keypoints no_pose_payload = [] \<and> confidence no_pose_payload = 0"
proof -
  let ?w = "sample_world\<lparr>process := (\<lambda>img. Inr None)\<rparr>"
  have "extract_pose loaded_modules ?w [''extract_pose.py'', ''person.jpg''] =
      \<lparr>stdout = [no_pose_payload], exit_status = 0\<rparr>"
    by (simp add: main_loaded loaded_modules_simps main_def extract_keypoints_def
        extract_body_def sample_world_def)
  then have printed: "no_pose_payload \<in> set (stdout (extract_pose loaded_modules ?w
       [''extract_pose.py'', ''person.jpg'']))"
    by simp
  have failed: "\<not> success no_pose_payload" by (simp add: no_pose_payload_def)
  from failure_payload_shape [OF printed failed] printed failed show ?thesis by simp
qed

text \<open>
  The claim C10 as it is written has the lookup return for every non-negative index. At
  the index \<open>10 ^ 4300\<close>, whose decimal form has 4301 digits, the conversion of the index
  to text raises \<open>ValueError\<close>, and so does the lookup.
\<close>

theorem get_landmark_name_raises_counterexample:
  "get_landmark_name (10 ^ 4300) =
     Inl (Exn (''Exceeds the limit (4300 digits) for integer string conversion; '' @
               ''use sys.set_int_max_str_digits() to increase the limit''))"
proof -
  have "(10::int) ^ int_max_str_digits \<le> 10 ^ 4300"
    by (simp only: int_max_str_digits_def order_refl)
  then show ?thesis by (rule get_landmark_name_above)
qed

text \<open>
  C10, amended. For a non-negative index whose decimal form has at most 4300 digits, the
  lookup returns a string and does not raise: the table entry at the index when the index
  is below 33, and \<open>LANDMARK_\<close> followed by the decimal index from 33 on. From \<open>10 ^ 4300\<close>
  on, the lookup raises the \<open>ValueError\<close> of the integer-to-text conversion.
\<close>

theorem get_landmark_name_total:
  "(0 \<le> idx \<and> idx < 10 ^ int_max_str_digits \<longrightarrow>
      get_landmark_name idx =
        Inr (if idx < 33 then landmark_names ! nat idx
             else ''LANDMARK_'' @ str_nat (nat idx))) \<and>
   (10 ^ int_max_str_digits \<le> idx \<longrightarrow>
      get_landmark_name idx =
        Inl (Exn (''Exceeds the limit (4300 digits) for integer string conversion; '' @
                  ''use sys.set_int_max_str_digits() to increase the limit'')))"
  using get_landmark_name_below [of idx] get_landmark_name_above [of idx] by blast

theorem get_landmark_name_total_witness:
  "get_landmark_name 5 = Inr ''RIGHT_EYE'' \<and> get_landmark_name 33 = Inr ''LANDMARK_33'' \<and>
   get_landmark_name 99 = Inr ''LANDMARK_99''"
proof -
  have "(5::int) < 10 ^ int_max_str_digits" "(33::int) < 10 ^ int_max_str_digits"
    "(99::int) < 10 ^ int_max_str_digits"
    by (rule small_int_below_limit, simp)+
  with get_landmark_name_total [of 5] get_landmark_name_total [of 33]
    get_landmark_name_total [of 99]
  show ?thesis
    by (simp add: landmark_names_def str_nat.simps digit_char_def)
qed

end
